theory Spec2Isabelle
  imports Complex_Main
begin

section \<open>Python exceptions and string helpers\<close>

text \<open>
  The exceptions that the modelled functions can raise. A function that may raise returns
  \<open>error + 'a\<close>, with \<open>Inl\<close> carrying the exception. An exception is named by the first of
  these classes it is an instance of; \<open>OtherError\<close> is an exception of none of them.
\<close>

datatype error =
  IndexError | TypeError | KeyError | AttributeError | ValueError | OverflowError | OtherError

text \<open>
  A string is a list of characters, read as code points below 256. \<open>str.strip()\<close> removes
  the characters for which \<open>str.isspace\<close> holds.
\<close>

definition is_space :: "char \<Rightarrow> bool" where
  "is_space c = (c \<in> set [CHR '' '', CHR 0x09, CHR 0x0A, CHR 0x0B, CHR 0x0C, CHR 0x0D,
                           CHR 0x1C, CHR 0x1D, CHR 0x1E, CHR 0x1F, CHR 0x85, CHR 0xA0])"

definition strip_with :: "(char \<Rightarrow> bool) \<Rightarrow> string \<Rightarrow> string" where
  "strip_with sp s = rev (dropWhile sp (rev (dropWhile sp s)))"

definition strip :: "string \<Rightarrow> string" where
  "strip s = strip_with is_space s"

fun starts_with :: "string \<Rightarrow> string \<Rightarrow> bool" where
  "starts_with s [] = True"
| "starts_with [] (p # ps) = False"
| "starts_with (c # cs) (p # ps) = (c = p \<and> starts_with cs ps)"

text \<open>\<open>py_in sub s\<close> is Python's \<open>sub in s\<close> on strings.\<close>

fun py_in :: "string \<Rightarrow> string \<Rightarrow> bool" where
  "py_in sub [] = (sub = [])"
| "py_in sub (c # cs) = (starts_with (c # cs) sub \<or> py_in sub cs)"

text \<open>\<open>s.replace(',', '.')\<close>\<close>

definition replace_comma :: "string \<Rightarrow> string" where
  "replace_comma s = map (\<lambda>c. if c = CHR '','' then CHR ''.'' else c) s"

section \<open>Python dictionaries\<close>

text \<open>
  A \<open>dict\<close> keeps its keys in insertion order, and assigning to a key that is already
  there keeps the key's position: an association list, updated in place.
\<close>

type_synonym ('k, 'v) dict = "('k \<times> 'v) list"

definition dict_get :: "('k, 'v) dict \<Rightarrow> 'k \<Rightarrow> 'v option" where
  "dict_get d k = map_of d k"

fun dict_set :: "('k, 'v) dict \<Rightarrow> 'k \<Rightarrow> 'v \<Rightarrow> ('k, 'v) dict" where
  "dict_set [] k v = [(k, v)]"
| "dict_set ((k', v') # d) k v =
     (if k' = k then (k, v) # d else (k', v') # dict_set d k v)"

definition dict_keys :: "('k, 'v) dict \<Rightarrow> 'k list" where
  "dict_keys d = map fst d"

section \<open>The parsed page\<close>

text \<open>
  \<open>parse_metrics_page\<close> hands the HTML text to BeautifulSoup and works on the tree it
  gets back. The model starts from that tree, reduced to what the function reads:
  the \<open>table\<close> elements of the document in document order with their CSS classes, for
  each table the \<open>tr\<close> elements below it, and for each row the \<open>th\<close> and \<open>td\<close> elements
  below it, in document order. A cell carries its tag, its \<open>colspan\<close> and \<open>style\<close>
  attributes (\<open>None\<close> when the attribute is absent) and the text nodes below it.
\<close>

datatype tag_name = TH | TD

record cell =
  tag :: tag_name
  colspan :: "string option"
  style :: "string option"
  strings :: "string list"

type_synonym row = "cell list"

record table =
  classes :: "string list"
  trs :: "row list"

type_synonym document = "table list"

text \<open>\<open>get_text()\<close> joins the text nodes; \<open>get_text(strip=True)\<close> strips each one first.\<close>

definition get_text :: "cell \<Rightarrow> string" where
  "get_text c = concat (strings c)"

definition get_text_strip :: "cell \<Rightarrow> string" where
  "get_text_strip c = concat (map strip (strings c))"

text \<open>The filter \<open>style=lambda x: x and sub in x\<close>.\<close>

definition style_has :: "string \<Rightarrow> cell \<Rightarrow> bool" where
  "style_has sub c = (case style c of None \<Rightarrow> False | Some x \<Rightarrow> x \<noteq> [] \<and> py_in sub x)"

text \<open>\<open>row.find('th', ...)\<close>: the first \<open>th\<close> of the row that passes the filter.\<close>

definition find_th :: "(cell \<Rightarrow> bool) \<Rightarrow> row \<Rightarrow> cell option" where
  "find_th P r = find (\<lambda>c. tag c = TH \<and> P c) r"

text \<open>\<open>row.find_all('th')[-1].get_text(strip=True)\<close>\<close>

definition last_th_text :: "row \<Rightarrow> error + string" where
  "last_th_text r =
     (case filter (\<lambda>c. tag c = TH) r of
        [] \<Rightarrow> Inl IndexError
      | c # cs \<Rightarrow> Inr (get_text_strip (last (c # cs))))"

text \<open>\<open>soup.find('table', class_='table')\<close>\<close>

definition find_table :: "document \<Rightarrow> table option" where
  "find_table doc = find (\<lambda>t. ''table'' \<in> set (classes t)) doc"

section \<open>The section map\<close>

text \<open>
  The values appended to a section's list are dictionaries with the keys
  \<open>code, name, weight, value, total\<close> (a detail row) or \<open>label, value\<close> (a subtotal).
  A value of the section map is such a list, or the string of the grand total.
\<close>

datatype item =
  ScoreRow string string string string string
| SubtotalEntry string string

datatype section_value = Rows "item list" | Scalar string

type_synonym sections = "(string, section_value) dict"

text \<open>The loop's state: \<open>sections\<close> and \<open>current_section\<close>.\<close>

type_synonym pstate = "sections \<times> string option"

text \<open>\<open>sections[key].append(x)\<close>\<close>

definition append_at :: "sections \<Rightarrow> string \<Rightarrow> item \<Rightarrow> error + sections" where
  "append_at secs key x =
     (case dict_get secs key of
        None \<Rightarrow> Inl KeyError
      | Some (Scalar s) \<Rightarrow> Inl AttributeError
      | Some (Rows xs) \<Rightarrow> Inr (dict_set secs key (Rows (xs @ [x]))))"

text \<open>\<open>sections.setdefault(key, []).append(x)\<close>\<close>

definition setdefault_append :: "sections \<Rightarrow> string \<Rightarrow> item \<Rightarrow> error + sections" where
  "setdefault_append secs key x =
     (case dict_get secs key of
        None \<Rightarrow> Inr (dict_set secs key (Rows [x]))
      | Some (Scalar s) \<Rightarrow> Inl AttributeError
      | Some (Rows xs) \<Rightarrow> Inr (dict_set secs key (Rows (xs @ [x]))))"

section \<open>parse\_metrics\_page\<close>

text \<open>The marker strings of the inline styles.\<close>

definition left_border :: string where
  "left_border = ''border-left: 3px solid''"

text \<open>
  The section header test: \<open>header\<close> is the first \<open>th\<close> with a \<open>colspan\<close> attribute and
  the left-border style, and the branch is taken when its text does not contain \<open>Total\<close>.
\<close>

definition header_cell :: "row \<Rightarrow> cell option" where
  "header_cell r = find_th (\<lambda>c. colspan c \<noteq> None \<and> style_has left_border c) r"

definition section_header :: "row \<Rightarrow> cell option" where
  "section_header r =
     (case header_cell r of
        None \<Rightarrow> None
      | Some header \<Rightarrow> if \<not> py_in ''Total'' (get_text header) then Some header else None)"

text \<open>The grand total test.\<close>

definition total_all :: "row \<Rightarrow> cell option" where
  "total_all r =
     (case find_th (style_has ''#FF6B1A'') r of
        None \<Rightarrow> None
      | Some t \<Rightarrow> if py_in ''TOTAL ALL SCORE'' (get_text t) then Some t else None)"

definition italic_total :: "row \<Rightarrow> cell option" where
  "italic_total r = find_th (style_has ''font-style: italic'') r"

text \<open>
  The body of the subtotal branch. \<open>current_section + ' (subtotal)'\<close> raises
  \<open>TypeError\<close> while \<open>current_section\<close> is \<open>None\<close>.
\<close>

definition subtotal_row :: "pstate \<Rightarrow> row \<Rightarrow> cell \<Rightarrow> error + pstate" where
  "subtotal_row st r it =
     (let text = get_text_strip it in
      if py_in ''Total Score'' text then
        (case last_th_text r of
           Inl e \<Rightarrow> Inl e
         | Inr v \<Rightarrow>
            (case snd st of
               None \<Rightarrow> Inl TypeError
             | Some cur \<Rightarrow>
                (case setdefault_append (fst st) (cur @ '' (subtotal)'') (SubtotalEntry text v) of
                   Inl e \<Rightarrow> Inl e
                 | Inr secs \<Rightarrow> Inr (secs, snd st))))
      else Inr st)"

text \<open>
  The last branch: a row of at least 5 cells whose first cell has the left-border style.
  The cells are read at the indices 1 to 5, and \<open>cols[5]\<close> raises \<open>IndexError\<close> on a row
  of 5 cells.
\<close>

definition is_detail :: "row \<Rightarrow> bool" where
  "is_detail cols =
     (length cols \<ge> 5 \<and> style_has left_border (cols ! 0))"

definition detail_row :: "pstate \<Rightarrow> row \<Rightarrow> error + pstate" where
  "detail_row st cols =
     (if is_detail cols then
        (let code = get_text_strip (cols ! 1);
             name = get_text_strip (cols ! 2);
             weight = get_text_strip (cols ! 3);
             val = replace_comma (get_text_strip (cols ! 4))
         in if length cols \<le> 5 then Inl IndexError
            else
              (let total = replace_comma (get_text_strip (cols ! 5)) in
               case snd st of
                 None \<Rightarrow> Inr st
               | Some cur \<Rightarrow>
                  if cur \<noteq> [] then
                    (case append_at (fst st) cur (ScoreRow code name weight val total) of
                       Inl e \<Rightarrow> Inl e
                     | Inr secs \<Rightarrow> Inr (secs, snd st))
                  else Inr st))
      else Inr st)"

text \<open>What the loop body does with a row that did not pass the section header test.\<close>

definition later_categories :: "pstate \<Rightarrow> row \<Rightarrow> error + pstate" where
  "later_categories st r =
     (case total_all r of
        Some t \<Rightarrow>
          (case last_th_text r of
             Inl e \<Rightarrow> Inl e
           | Inr total_score \<Rightarrow>
               Inr (dict_set (fst st) ''TOTAL ALL SCORE'' (Scalar total_score), snd st))
      | None \<Rightarrow>
          (case italic_total r of
             Some it \<Rightarrow> subtotal_row st r it
           | None \<Rightarrow> detail_row st r))"

text \<open>The loop body. Every branch that ends in \<open>continue\<close> returns the state at once.\<close>

definition parse_row :: "pstate \<Rightarrow> row \<Rightarrow> error + pstate" where
  "parse_row st r =
     (case section_header r of
        Some header \<Rightarrow>
          (let section_text = get_text_strip header in
           if py_in ''Score in'' section_text
           then Inr (dict_set (fst st) section_text (Rows []), Some section_text)
           else Inr st)
      | None \<Rightarrow> later_categories st r)"

fun parse_rows :: "pstate \<Rightarrow> row list \<Rightarrow> error + pstate" where
  "parse_rows st [] = Inr st"
| "parse_rows st (r # rs) =
     (case parse_row st r of Inl e \<Rightarrow> Inl e | Inr st' \<Rightarrow> parse_rows st' rs)"

text \<open>The result is \<open>None\<close> when no table is found, the section map otherwise.\<close>

definition parse_metrics_page :: "document \<Rightarrow> error + sections option" where
  "parse_metrics_page doc =
     (case find_table doc of
        None \<Rightarrow> Inr None
      | Some t \<Rightarrow>
          (case parse_rows ([], None) (trs t) of
             Inl e \<Rightarrow> Inl e
           | Inr st \<Rightarrow> Inr (Some (fst st))))"

section \<open>Values of the metric store\<close>

text \<open>
  A float is written by a real number that rounds to it: \<open>Fin r\<close> is the double nearest to
  \<open>r\<close> (ties to even), as the literal \<open>0.092\<close> and the conversions \<open>float(n)\<close> and \<open>float(s)\<close>
  are. The two zeros are not told apart. A real of magnitude \<open>2 ^ 1024 - 2 ^ 970\<close> or more
  rounds to \<open>2 ^ 1024\<close>, which is no double, and one of magnitude up to \<open>2 ^ -1075\<close> rounds to
  zero.
\<close>

datatype pyfloat = Fin real | PosInf | NegInf | NaN

text \<open>
  The store is a \<open>Dict[str, Any]\<close>: what \<open>set_value\<close> is given and what \<open>json.load\<close>
  reads. \<open>PContainer\<close> is a list or a dictionary. \<open>PObject r\<close> is any other object, given by
  what \<open>float\<close> does with it: it returns a float or raises.
\<close>

datatype pyval =
  PFloat pyfloat | PInt int | PBool bool | PStr string | PNone | PContainer
| PObject "error + pyfloat"

text \<open>\<open>x < 0\<close> on floats: the double nearest to \<open>r\<close> is negative when \<open>r\<close> is below \<open>- 2 ^ -1075\<close>.\<close>

fun float_lt0 :: "pyfloat \<Rightarrow> bool" where
  "float_lt0 (Fin r) = (r < - (1 / 2 ^ 1075))"
| "float_lt0 NegInf = True"
| "float_lt0 PosInf = False"
| "float_lt0 NaN = False"

subsection \<open>float() of a string\<close>

text \<open>
  The grammar of \<open>float(s)\<close>: white space is stripped, then an optional sign and one of
  \<open>inf\<close>, \<open>infinity\<close>, \<open>nan\<close> (in any case) or a decimal number
  \<open>digits [. [digits]] [e [sign] digits]\<close> or \<open>. digits [e [sign] digits]\<close>, where single
  underscores may separate digits.
\<close>

text \<open>
  The white space that \<open>float\<close> skips at both ends: the separators \<open>0x1C\<close> to \<open>0x1F\<close> are
  not part of it.
\<close>

definition is_float_space :: "char \<Rightarrow> bool" where
  "is_float_space c =
     (c \<in> set [CHR '' '', CHR 0x09, CHR 0x0A, CHR 0x0B, CHR 0x0C, CHR 0x0D, CHR 0x85, CHR 0xA0])"

definition is_digit :: "char \<Rightarrow> bool" where
  "is_digit c = (c \<in> set ''0123456789'')"

definition digit_val :: "char \<Rightarrow> nat" where
  "digit_val c = of_char c - 48"

definition lower_char :: "char \<Rightarrow> char" where
  "lower_char c =
     (let n = (of_char c :: nat) in if 65 \<le> n \<and> n \<le> 90 then char_of (n + 32) else c)"

fun digitpart_ok :: "string \<Rightarrow> bool" where
  "digitpart_ok [] = False"
| "digitpart_ok [c] = is_digit c"
| "digitpart_ok (c # d # cs) =
     (is_digit c \<and> (if d = CHR ''_'' then digitpart_ok cs else digitpart_ok (d # cs)))"

definition digits_val :: "string \<Rightarrow> nat" where
  "digits_val s = foldl (\<lambda>a c. 10 * a + digit_val c) 0 (filter is_digit s)"

definition digit_or_us :: "char \<Rightarrow> bool" where
  "digit_or_us c = (is_digit c \<or> c = CHR ''_'')"

text \<open>The exponent part: empty, or \<open>e\<close>, an optional sign and digits up to the end.\<close>

definition parse_exponent :: "string \<Rightarrow> int option" where
  "parse_exponent s =
     (case s of
        [] \<Rightarrow> Some 0
      | c # t \<Rightarrow>
          if c = CHR ''e'' \<or> c = CHR ''E'' then
            (case t of
               [] \<Rightarrow> None
             | x # u \<Rightarrow>
                 if x = CHR ''-'' then (if digitpart_ok u then Some (- int (digits_val u)) else None)
                 else if x = CHR ''+'' then (if digitpart_ok u then Some (int (digits_val u)) else None)
                 else (if digitpart_ok t then Some (int (digits_val t)) else None))
          else None)"

definition scale10 :: "nat \<Rightarrow> int \<Rightarrow> real" where
  "scale10 m k = (if 0 \<le> k then of_nat m * 10 ^ nat k else of_nat m / 10 ^ nat (- k))"

definition parse_number :: "string \<Rightarrow> real option" where
  "parse_number s =
     (let ip = takeWhile digit_or_us s;
          r1 = dropWhile digit_or_us s;
          fp = (case r1 of [] \<Rightarrow> [] | c # t \<Rightarrow> if c = CHR ''.'' then takeWhile digit_or_us t else []);
          r2 = (case r1 of [] \<Rightarrow> [] | c # t \<Rightarrow> if c = CHR ''.'' then dropWhile digit_or_us t else r1)
      in if (ip = [] \<or> digitpart_ok ip) \<and> (fp = [] \<or> digitpart_ok fp) \<and> ip @ fp \<noteq> []
         then (case parse_exponent r2 of
                 None \<Rightarrow> None
               | Some e \<Rightarrow> Some (scale10 (digits_val (ip @ fp)) (e - int (length (filter is_digit fp)))))
         else None)"

text \<open>A decimal string that rounds to \<open>2 ^ 1024\<close> or beyond gives an infinity.\<close>

definition float_limit :: int where
  "float_limit = 2 ^ 1024 - 2 ^ 970"

definition fin_or_inf :: "real \<Rightarrow> pyfloat" where
  "fin_or_inf r =
     (if of_int float_limit \<le> r then PosInf
      else if r \<le> - of_int float_limit then NegInf
      else Fin r)"

definition float_of_str :: "string \<Rightarrow> error + pyfloat" where
  "float_of_str s =
     (let t = strip_with is_float_space s;
          neg = (case t of [] \<Rightarrow> False | c # u \<Rightarrow> c = CHR ''-'');
          u = (case t of [] \<Rightarrow> [] | c # u \<Rightarrow> if c = CHR ''-'' \<or> c = CHR ''+'' then u else t);
          l = map lower_char u
      in if l = ''inf'' \<or> l = ''infinity'' then Inr (if neg then NegInf else PosInf)
         else if l = ''nan'' then Inr NaN
         else (case parse_number u of
                 None \<Rightarrow> Inl ValueError
               | Some r \<Rightarrow> Inr (fin_or_inf (if neg then - r else r))))"

subsection \<open>float() of a value\<close>

text \<open>
  An integer of that size raises \<open>OverflowError\<close>; \<open>None\<close>, lists and dictionaries raise
  \<open>TypeError\<close>; a string outside the grammar raises \<open>ValueError\<close>; another object does
  what its \<open>__float__\<close> does.
\<close>

definition int_too_large :: "int \<Rightarrow> bool" where
  "int_too_large n = (\<bar>n\<bar> \<ge> float_limit)"

fun py_float :: "pyval \<Rightarrow> error + pyfloat" where
  "py_float (PFloat f) = Inr f"
| "py_float (PInt n) = (if int_too_large n then Inl OverflowError else Inr (Fin (of_int n)))"
| "py_float (PBool b) = Inr (Fin (if b then 1 else 0))"
| "py_float (PStr s) = float_of_str s"
| "py_float PNone = Inl TypeError"
| "py_float PContainer = Inl TypeError"
| "py_float (PObject r) = r"

section \<open>SintaDataManager\<close>

text \<open>
  The two entries of \<open>st.session_state\<close> that the class uses; \<open>None\<close> is a key that is not
  in the session state, and reading it raises \<open>KeyError\<close>.
\<close>

type_synonym store = "(string, pyval) dict"

record session =
  SINTA_DB :: "store option"
  default_values :: "store option"

text \<open>The table of defaults written out in \<open>_ensure_session_state\<close>.\<close>

definition canonical_defaults :: store where
  "canonical_defaults =
     [
      (''AI1'', PFloat (Fin 0.092)), (''AI2'', PFloat (Fin 0.076)), (''AI3'', PFloat (Fin 0.139)),
      (''AI4'', PFloat (Fin 0.034)), (''AI5'', PFloat (Fin 0.034)), (''AI6'', PFloat (Fin 0.151)),
      (''AI7'', PFloat (Fin 343.01)), (''AI8'', PFloat (Fin 0.349)), (''AN1'', PFloat (Fin 0.021)),
      (''AN2'', PFloat (Fin 0.202)), (''AN3'', PFloat (Fin 0.441)), (''AN4'', PFloat (Fin 2.366)),
      (''AN5'', PFloat (Fin 2.294)), (''AN6'', PFloat (Fin 0.122)), (''AN7'', PFloat (Fin 1.483)),
      (''AN8'', PFloat (Fin 0.013)), (''AN9'', PFloat (Fin 0.0)), (''AN10'', PFloat (Fin 0.0)),
      (''DGS1'', PFloat (Fin 22.092)), (''DGS2'', PFloat (Fin 2.426)), (''DGS3'', PFloat (Fin 9.828)),
      (''B1'', PFloat (Fin 0.202)), (''B2'', PFloat (Fin 0.622)), (''B3'', PFloat (Fin 0.025)),
      (''P1'', PFloat (Fin 0.0)), (''P2'', PFloat (Fin 0.0)), (''P3'', PFloat (Fin 18.0)),
      (''P4'', PFloat (Fin 7.0)), (''P5'', PFloat (Fin 486.0)), (''P6'', PFloat (Fin 10.0)),
      (''P7'', PFloat (Fin 2523.96)), (''PM1'', PFloat (Fin 0.0)), (''PM2'', PFloat (Fin 0.0)),
      (''PM3'', PFloat (Fin 6.0)), (''PM4'', PFloat (Fin 3.0)), (''PM5'', PFloat (Fin 476.0)),
      (''PM6'', PFloat (Fin 13.0)), (''PM7'', PFloat (Fin 793.35)), (''KI1'', PFloat (Fin 0.0)),
      (''KI2'', PFloat (Fin 0.0)), (''KI3'', PFloat (Fin 0.004)), (''KI4'', PFloat (Fin 0.0)),
      (''KI5'', PFloat (Fin 0.0)), (''KI6'', PFloat (Fin 0.0)), (''KI7'', PFloat (Fin 0.004)),
      (''KI8'', PFloat (Fin 0.143)), (''KI9'', PFloat (Fin 6.0)), (''KI10'', PFloat (Fin 0.0)),
      (''R1'', PFloat (Fin 0.0)), (''R2'', PFloat (Fin 0.0)), (''R3'', PFloat (Fin 0.0)),
      (''DOS1'', PFloat (Fin 0.004)), (''DOS2'', PFloat (Fin 0.054)), (''DOS3'', PFloat (Fin 0.43)),
      (''DOS4'', PFloat (Fin 0.318)), (''DOS5'', PFloat (Fin 0.193)), (''REV1'', PFloat (Fin 0.0)),
      (''APS1'', PFloat (Fin 0.0)), (''APS2'', PFloat (Fin 0.833)), (''APS3'', PFloat (Fin 0.167)),
      (''APS4'', PFloat (Fin 0.0)), (''JO1'', PFloat (Fin 0.0)), (''JO2'', PFloat (Fin 0.0)),
      (''JO3'', PFloat (Fin 0.0)), (''JO4'', PFloat (Fin 4.0)), (''JO5'', PFloat (Fin 9.0)),
      (''JO6'', PFloat (Fin 1.0))
     ]"

definition ensure_session_state :: "session \<Rightarrow> session" where
  "ensure_session_state s =
     (let s1 = (case SINTA_DB s of None \<Rightarrow> s\<lparr>SINTA_DB := Some []\<rparr> | Some db \<Rightarrow> s);
          s2 = (case default_values s1 of
                  None \<Rightarrow> s1\<lparr>default_values := Some canonical_defaults\<rparr>
                | Some dv \<Rightarrow> s1)
      in case SINTA_DB s2 of
           Some [] \<Rightarrow> s2\<lparr>SINTA_DB := default_values s2\<rparr>
         | _ \<Rightarrow> s2)"

text \<open>\<open>SintaDataManager()\<close>\<close>

definition init :: "session \<Rightarrow> session" where
  "init s = ensure_session_state s"

text \<open>The handler \<open>except (ValueError, TypeError)\<close>.\<close>

definition caught :: "error \<Rightarrow> bool" where
  "caught e = (e = ValueError \<or> e = TypeError)"

definition get_value :: "session \<Rightarrow> string \<Rightarrow> pyval \<Rightarrow> error + pyfloat" where
  "get_value s key dflt =
     (case SINTA_DB s of
        None \<Rightarrow> Inl KeyError
      | Some db \<Rightarrow>
          (case py_float (case dict_get db key of None \<Rightarrow> dflt | Some v \<Rightarrow> v) of
             Inr f \<Rightarrow> Inr f
           | Inl e \<Rightarrow> if caught e then py_float dflt else Inl e))"

text \<open>The warning of \<open>set_value\<close>, with the value and the key its message prints.\<close>

datatype warning = NotNumeric pyval string

definition set_value :: "session \<Rightarrow> string \<Rightarrow> pyval \<Rightarrow> error + session \<times> warning list" where
  "set_value s key v =
     (case py_float v of
        Inr numeric_value \<Rightarrow>
          (case SINTA_DB s of
             None \<Rightarrow> Inl KeyError
           | Some db \<Rightarrow> Inr (s\<lparr>SINTA_DB := Some (dict_set db key (PFloat numeric_value))\<rparr>, []))
      | Inl e \<Rightarrow>
          if caught e then
            (case SINTA_DB s of
               None \<Rightarrow> Inl KeyError
             | Some db \<Rightarrow> Inr (s\<lparr>SINTA_DB := Some (dict_set db key v)\<rparr>, [NotNumeric v key]))
          else Inl e)"

definition reset_data :: "session \<Rightarrow> error + session" where
  "reset_data s =
     (case default_values s of
        None \<Rightarrow> Inl KeyError
      | Some dv \<Rightarrow> Inr (s\<lparr>SINTA_DB := Some dv\<rparr>))"

subsection \<open>Files\<close>

text \<open>
  What \<open>load_from_file\<close> finds under a name: no file; a file on which \<open>open\<close> or
  \<open>json.load\<close> raises; a JSON object; or another JSON value. Of another value
  \<open>dict.update\<close> takes the elements in order as key and value pairs and assigns each one
  before it looks at the next: \<open>JsonPairs ps ok\<close> has the pairs \<open>ps\<close> that it assigns, and \<open>ok\<close>
  tells whether it then returns or raises on an element that is no pair (a number is
  \<open>JsonPairs [] False\<close>, the empty array \<open>JsonPairs [] True\<close>). Pairs whose key is not a
  string are not modelled.
\<close>

datatype file_content = NoFile | BadFile | JsonObject store | JsonPairs store bool

text \<open>\<open>d.update(other)\<close>: the items of \<open>other\<close> are assigned in order.\<close>

definition dict_update :: "('k, 'v) dict \<Rightarrow> ('k, 'v) dict \<Rightarrow> ('k, 'v) dict" where
  "dict_update d other = fold (\<lambda>kv acc. dict_set acc (fst kv) (snd kv)) other d"

text \<open>Every exception is caught; the result is the session and the returned flag.\<close>

definition load_from_file :: "(string \<Rightarrow> file_content) \<Rightarrow> session \<Rightarrow> string \<Rightarrow> session \<times> bool" where
  "load_from_file fs s filename =
     (case fs filename of
        NoFile \<Rightarrow> (s, False)
      | BadFile \<Rightarrow> (s, False)
      | JsonObject loaded_data \<Rightarrow>
          (case SINTA_DB s of
             None \<Rightarrow> (s, False)
           | Some db \<Rightarrow> (s\<lparr>SINTA_DB := Some (dict_update db loaded_data)\<rparr>, True))
      | JsonPairs ps ok \<Rightarrow>
          (case SINTA_DB s of
             None \<Rightarrow> (s, False)
           | Some db \<Rightarrow> (s\<lparr>SINTA_DB := Some (dict_update db ps)\<rparr>, ok)))"

definition backup_current_state :: "session \<Rightarrow> error + store" where
  "backup_current_state s =
     (case SINTA_DB s of None \<Rightarrow> Inl KeyError | Some db \<Rightarrow> Inr db)"

definition restore_from_backup :: "session \<Rightarrow> store \<Rightarrow> session" where
  "restore_from_backup s backup_data = s\<lparr>SINTA_DB := Some backup_data\<rparr>"

subsection \<open>Validation\<close>

text \<open>The three messages of \<open>validate_data\<close>, with the values they print.\<close>

datatype issue =
  MissingField string
| MustBeNonNegative string pyval
| MustBeNumeric string pyval

text \<open>The first loop: every required field that is not in the store.\<close>

fun check_required :: "store \<Rightarrow> (string, issue) dict \<Rightarrow> string list \<Rightarrow> (string, issue) dict" where
  "check_required db errors [] = errors"
| "check_required db errors (field # rest) =
     check_required db
       (if dict_get db field = None then dict_set errors field (MissingField field) else errors)
       rest"

text \<open>
  The second loop, over the items of the store. An exception other than \<open>ValueError\<close> and
  \<open>TypeError\<close> is not caught.
\<close>

fun check_values :: "(string, issue) dict \<Rightarrow> store \<Rightarrow> error + (string, issue) dict" where
  "check_values errors [] = Inr errors"
| "check_values errors ((key, v) # items) =
     (case py_float v of
        Inr num_value \<Rightarrow>
          check_values
            (if float_lt0 num_value then dict_set errors key (MustBeNonNegative key v) else errors)
            items
      | Inl e \<Rightarrow>
          if caught e then check_values (dict_set errors key (MustBeNumeric key v)) items
          else Inl e)"

definition validate_data :: "session \<Rightarrow> error + (string, issue) dict" where
  "validate_data s =
     (case default_values s of
        None \<Rightarrow> Inl KeyError
      | Some dv \<Rightarrow>
          (case SINTA_DB s of
             None \<Rightarrow> Inl KeyError
           | Some db \<Rightarrow> check_values (check_required db [] (dict_keys dv)) db))"

section \<open>Rows and results in the statements\<close>

text \<open>
  A row that reaches the detail branch and has the sixth cell that the branch reads: it
  fails the section header, grand total and subtotal tests and passes the detail test.
\<close>

definition plain_detail :: "row \<Rightarrow> bool" where
  "plain_detail d =
     (section_header d = None \<and> total_all d = None \<and> italic_total d = None \<and>
      is_detail d \<and> length d > 5)"

text \<open>The dictionary that the detail branch builds from such a row.\<close>

definition score_row :: "row \<Rightarrow> item" where
  "score_row cols =
     ScoreRow (get_text_strip (cols ! 1)) (get_text_strip (cols ! 2)) (get_text_strip (cols ! 3))
       (replace_comma (get_text_strip (cols ! 4))) (replace_comma (get_text_strip (cols ! 5)))"

text \<open>
  The caption under which a row opens a section, if it does; a row that reaches the detail
  test and passes it; and the detail rows among the items of an entry.
\<close>

definition opens :: "row \<Rightarrow> string option" where
  "opens r =
     (case section_header r of
        None \<Rightarrow> None
      | Some header \<Rightarrow>
          if py_in ''Score in'' (get_text_strip header) then Some (get_text_strip header)
          else None)"

definition reaches_detail :: "row \<Rightarrow> bool" where
  "reaches_detail r =
     (section_header r = None \<and> total_all r = None \<and> italic_total r = None \<and> is_detail r)"

fun is_score_row :: "item \<Rightarrow> bool" where
  "is_score_row (ScoreRow c n w v t) = True"
| "is_score_row (SubtotalEntry l v) = False"

definition score_rows :: "item list \<Rightarrow> item list" where
  "score_rows xs = filter is_score_row xs"

text \<open>A section map in which no \<open>value\<close> or \<open>total\<close> of a detail row contains a comma.\<close>

fun item_normalized :: "item \<Rightarrow> bool" where
  "item_normalized (ScoreRow c n w v t) = (CHR '','' \<notin> set v \<and> CHR '','' \<notin> set t)"
| "item_normalized (SubtotalEntry l v) = True"

fun value_normalized :: "section_value \<Rightarrow> bool" where
  "value_normalized (Rows xs) = list_all item_normalized xs"
| "value_normalized (Scalar s) = True"

definition rows_normalized :: "sections \<Rightarrow> bool" where
  "rows_normalized secs = list_all (\<lambda>kv. value_normalized (snd kv)) secs"

section \<open>Sample pages and stores\<close>

text \<open>Cells, rows and pages on which the theorems below are evaluated.\<close>

definition plain_cell :: "tag_name \<Rightarrow> string \<Rightarrow> cell" where
  "plain_cell t x = \<lparr>tag = t, colspan = None, style = None, strings = [x]\<rparr>"

definition styled_cell :: "tag_name \<Rightarrow> string \<Rightarrow> string \<Rightarrow> cell" where
  "styled_cell t st x = \<lparr>tag = t, colspan = None, style = Some st, strings = [x]\<rparr>"

definition caption_cell :: "string \<Rightarrow> cell" where
  "caption_cell x =
     \<lparr>tag = TH, colspan = Some ''6'', style = Some ''border-left: 3px solid #3c8dbc'',
      strings = [x]\<rparr>"

definition marker_cell :: cell where
  "marker_cell =
     \<lparr>tag = TD, colspan = None, style = Some ''border-left: 3px solid #3c8dbc'', strings = []\<rparr>"

definition page :: "row list \<Rightarrow> document" where
  "page rs = [\<lparr>classes = [''table'', ''table-striped''], trs = rs\<rparr>]"

definition header_pub :: row where
  "header_pub = [caption_cell ''Score in Publication'']"

definition detail_ai1 :: row where
  "detail_ai1 =
     [marker_cell, plain_cell TD ''AI1'', plain_cell TD ''Article Q1'', plain_cell TD ''40'',
      plain_cell TD ''1,234'', plain_cell TD ''49,36'']"

definition detail_ai2 :: row where
  "detail_ai2 =
     [marker_cell, plain_cell TD ''AI2'', plain_cell TD ''Article Q2'', plain_cell TD ''30'',
      plain_cell TD ''0,5'', plain_cell TD ''15'']"

text \<open>A detail row of exactly five cells.\<close>

definition detail_five :: row where
  "detail_five =
     [marker_cell, plain_cell TD ''AI1'', plain_cell TD ''Article Q1'', plain_cell TD ''40'',
      plain_cell TD ''1,234'']"

definition subtotal_pub :: row where
  "subtotal_pub =
     [styled_cell TH ''font-style: italic'' ''Total Score Publication'', plain_cell TH ''64,36'']"

definition grand_total :: row where
  "grand_total =
     [styled_cell TH ''color: #FF6B1A'' ''TOTAL ALL SCORE'',
      styled_cell TH ''color: #FF6B1A'' ''543,21'']"

text \<open>A table without the class \<open>table\<close>.\<close>

definition other_table :: table where
  "other_table = \<lparr>classes = [''grid''], trs = [header_pub, detail_five]\<rparr>"




definition open_pub :: pstate where
  "open_pub = ([(''Score in Publication'', Rows [])], Some ''Score in Publication'')"

definition rows_before :: "row list" where
  "rows_before = [header_pub, detail_ai1, subtotal_pub]"

definition rows_after :: "row list" where
  "rows_after = [detail_ai2, subtotal_pub, grand_total]"

text \<open>Sessions and a file for the metric store.\<close>

definition fresh_session :: session where
  "fresh_session = \<lparr>SINTA_DB = None, default_values = None\<rparr>"

definition huge_session :: session where
  "huge_session = \<lparr>SINTA_DB = Some [(''AI1'', PInt (10 ^ 400))], default_values = Some canonical_defaults\<rparr>"

definition one_key_session :: session where
  "one_key_session = \<lparr>SINTA_DB = Some [(''AI1'', PFloat (Fin 1))], default_values = Some canonical_defaults\<rparr>"

definition other_key_data :: store where
  "other_key_data = [(''AI2'', PFloat (Fin 2))]"

definition one_file :: "string \<Rightarrow> file_content" where
  "one_file name = (if name = ''sinta_data.json'' then JsonObject other_key_data else NoFile)"

section \<open>Dictionaries and the loop\<close>

lemma dict_get_dict_set:
  "dict_get (dict_set d k v) k' = (if k' = k then Some v else dict_get d k')"
  by (induction d) (auto simp: dict_get_def)

lemma dict_keys_dict_set:
  "dict_keys (dict_set d k v) =
     (if k \<in> set (dict_keys d) then dict_keys d else dict_keys d @ [k])"
  by (induction d) (force simp: dict_keys_def)+

lemma distinct_dict_set:
  "distinct (dict_keys d) \<Longrightarrow> distinct (dict_keys (dict_set d k v))"
  by (simp add: dict_keys_dict_set)

lemma dict_get_in_keys: "dict_get d k = Some v \<Longrightarrow> k \<in> set (dict_keys d)"
  unfolding dict_get_def dict_keys_def by (metis map_of_SomeD fst_conv image_eqI set_map)

lemma py_in_nonempty: "py_in sub s \<Longrightarrow> sub \<noteq> [] \<Longrightarrow> s \<noteq> []"
  by (cases s) auto

lemma parse_rows_append:
  "parse_rows st (xs @ ys) =
     (case parse_rows st xs of Inl e \<Rightarrow> Inl e | Inr st' \<Rightarrow> parse_rows st' ys)"
  by (induction xs arbitrary: st) (auto split: sum.splits)

lemma append_at_keys:
  "append_at secs k x = Inr secs' \<Longrightarrow> dict_keys secs' = dict_keys secs"
  by (auto simp: append_at_def dict_keys_dict_set dict_get_in_keys
      split: option.splits section_value.splits)

lemma setdefault_append_distinct:
  "setdefault_append secs k x = Inr secs' \<Longrightarrow> distinct (dict_keys secs) \<Longrightarrow>
   distinct (dict_keys secs')"
  by (auto simp: setdefault_append_def distinct_dict_set
      split: option.splits section_value.splits)

lemma parse_row_distinct:
  assumes "parse_row st r = Inr st'" "distinct (dict_keys (fst st))"
  shows "distinct (dict_keys (fst st'))"
  using assms
  by (auto simp: parse_row_def later_categories_def subtotal_row_def detail_row_def Let_def
      distinct_dict_set append_at_keys
      dest: setdefault_append_distinct
      split: option.splits sum.splits if_splits)

lemma parse_rows_distinct:
  "parse_rows st rs = Inr st' \<Longrightarrow> distinct (dict_keys (fst st)) \<Longrightarrow>
   distinct (dict_keys (fst st'))"
proof (induction rs arbitrary: st)
  case Nil
  then show ?case by simp
next
  case (Cons r rs)
  then show ?case by (auto split: sum.splits dest: parse_row_distinct)
qed

lemma detail_step:
  assumes "plain_detail d" "cur \<noteq> []" "dict_get secs cur = Some (Rows xs)"
  shows "parse_row (secs, Some cur) d =
           Inr (dict_set secs cur (Rows (xs @ [score_row d])), Some cur)"
  using assms
  by (simp add: plain_detail_def parse_row_def later_categories_def detail_row_def
      append_at_def score_row_def Let_def)

lemma replace_comma_no_comma: "CHR '','' \<notin> set (replace_comma x)"
  by (auto simp: replace_comma_def)

lemma rows_normalized_dict_set:
  "rows_normalized secs \<Longrightarrow> value_normalized v \<Longrightarrow> rows_normalized (dict_set secs k v)"
  by (induction secs) (auto simp: rows_normalized_def)

lemma rows_normalized_get:
  "rows_normalized secs \<Longrightarrow> dict_get secs k = Some v \<Longrightarrow> value_normalized v"
  unfolding rows_normalized_def dict_get_def list_all_iff
  by (metis map_of_SomeD snd_conv)

lemma append_at_normalized:
  "append_at secs k x = Inr secs' \<Longrightarrow> rows_normalized secs \<Longrightarrow> item_normalized x \<Longrightarrow>
   rows_normalized secs'"
  by (auto simp: append_at_def split: option.splits section_value.splits
      dest!: rows_normalized_get intro!: rows_normalized_dict_set)

lemma setdefault_append_normalized:
  "setdefault_append secs k x = Inr secs' \<Longrightarrow> rows_normalized secs \<Longrightarrow> item_normalized x \<Longrightarrow>
   rows_normalized secs'"
  by (auto simp: setdefault_append_def split: option.splits section_value.splits
      dest!: rows_normalized_get intro!: rows_normalized_dict_set)

lemma parse_row_normalized:
  assumes "parse_row st r = Inr st'" "rows_normalized (fst st)"
  shows "rows_normalized (fst st')"
  using assms
  by (auto simp: parse_row_def later_categories_def subtotal_row_def detail_row_def Let_def
      replace_comma_no_comma rows_normalized_dict_set
      dest: setdefault_append_normalized append_at_normalized
      split: option.splits sum.splits if_splits)

lemma parse_rows_normalized:
  "parse_rows st rs = Inr st' \<Longrightarrow> rows_normalized (fst st) \<Longrightarrow> rows_normalized (fst st')"
proof (induction rs arbitrary: st)
  case Nil
  then show ?case by simp
next
  case (Cons r rs)
  then show ?case by (auto split: sum.splits dest: parse_row_normalized)
qed

lemma parse_metrics_page_normalized:
  assumes "parse_metrics_page doc = Inr (Some secs)"
  shows "rows_normalized secs"
proof -
  have start: "rows_normalized (fst (([], None) :: pstate))"
    by (simp add: rows_normalized_def)
  show ?thesis
  proof (cases "find_table doc")
    case None
    with assms show ?thesis by (simp add: parse_metrics_page_def)
  next
    case (Some t)
    with assms have "\<exists>st. parse_rows ([], None) (trs t) = Inr st \<and> secs = fst st"
      by (auto simp: parse_metrics_page_def split: sum.splits)
    with start show ?thesis by (auto dest: parse_rows_normalized)
  qed
qed

lemma last_th_text_found:
  assumes "find_th P r = Some t"
  shows "last_th_text r = Inr (get_text_strip (last (filter (\<lambda>c. tag c = TH) r)))"
proof -
  from assms have "t \<in> set r" "tag t = TH"
    by (auto simp: find_th_def find_Some_iff)
  then have "filter (\<lambda>c. tag c = TH) r \<noteq> []"
    by (auto simp: filter_empty_conv)
  then show ?thesis
    by (cases "filter (\<lambda>c. tag c = TH) r") (simp_all add: last_th_text_def)
qed

lemma grand_total_step:
  assumes "section_header r = None" "total_all r = Some t"
  shows "parse_row st r =
           Inr (dict_set (fst st) ''TOTAL ALL SCORE''
                  (Scalar (get_text_strip (last (filter (\<lambda>c. tag c = TH) r)))), snd st)"
proof -
  from assms(2) obtain t' where "find_th (style_has ''#FF6B1A'') r = Some t'"
    by (auto simp: total_all_def split: option.splits)
  then have "last_th_text r = Inr (get_text_strip (last (filter (\<lambda>c. tag c = TH) r)))"
    by (rule last_th_text_found)
  with assms show ?thesis
    by (simp add: parse_row_def later_categories_def)
qed

lemma opens_step:
  assumes "opens h = Some c"
  shows "parse_row st h = Inr (dict_set (fst st) c (Rows []), Some c)"
  using assms
  by (auto simp: opens_def parse_row_def Let_def split: option.splits if_splits)

lemma opens_caption:
  assumes "opens h = Some c"
  shows "py_in ''Score in'' c"
  using assms by (auto simp: opens_def split: option.splits if_splits)

lemma caption_facts:
  assumes "py_in ''Score in'' c"
  shows "c \<noteq> []" and "c \<noteq> ''TOTAL ALL SCORE''" and "c @ '' (subtotal)'' \<noteq> c"
proof -
  show "c \<noteq> []" using assms by (rule py_in_nonempty) simp
  show "c \<noteq> ''TOTAL ALL SCORE''" using assms by auto
  show "c @ '' (subtotal)'' \<noteq> c" by simp
qed

lemma setdefault_append_other:
  assumes "setdefault_append secs k x = Inr secs'" "k \<noteq> c"
  shows "dict_get secs' c = dict_get secs c"
  using assms
  by (auto simp: setdefault_append_def dict_get_dict_set split: option.splits section_value.splits)

lemma setdefault_append_same:
  assumes "setdefault_append secs c x = Inr secs'" "dict_get secs c = Some (Rows xs)"
  shows "dict_get secs' c = Some (Rows (xs @ [x]))"
  using assms
  by (auto simp: setdefault_append_def dict_get_dict_set split: option.splits section_value.splits)

lemma append_at_other:
  assumes "append_at secs k x = Inr secs'" "k \<noteq> c"
  shows "dict_get secs' c = dict_get secs c"
  using assms
  by (auto simp: append_at_def dict_get_dict_set split: option.splits section_value.splits)

lemma append_at_same:
  assumes "append_at secs c x = Inr secs'" "dict_get secs c = Some (Rows xs)"
  shows "dict_get secs' c = Some (Rows (xs @ [x]))"
  using assms
  by (auto simp: append_at_def dict_get_dict_set split: option.splits section_value.splits)

text \<open>A row that opens no section, met while the section \<open>c\<close> is open.\<close>

lemma under_step:
  assumes "opens r = None" "py_in ''Score in'' c"
    and "dict_get secs c = Some (Rows xs)"
    and "parse_row (secs, Some c) r = Inr st'"
  shows "snd st' = Some c \<and>
         (\<exists>xs'. dict_get (fst st') c = Some (Rows xs') \<and>
                score_rows xs' = score_rows xs @ (if reaches_detail r then [score_row r] else []))"
proof (cases "section_header r")
  case (Some h)
  with assms(1,4) have "st' = (secs, Some c)"
    by (auto simp: opens_def parse_row_def Let_def split: if_splits)
  with Some assms(3) show ?thesis by (simp add: reaches_detail_def)
next
  case None
  note c = caption_facts [OF assms(2)]
  show ?thesis
  proof (cases "total_all r")
    case (Some t)
    with None assms(4) c(2) assms(3) show ?thesis
      by (auto simp: parse_row_def later_categories_def reaches_detail_def dict_get_dict_set
          split: sum.splits)
  next
    case nt: None
    show ?thesis
    proof (cases "italic_total r")
      case (Some it)
      with None nt assms(4) have "subtotal_row (secs, Some c) r it = Inr st'"
        by (simp add: parse_row_def later_categories_def)
      then have "snd st' = Some c \<and> dict_get (fst st') c = dict_get secs c"
        using c(3)
        by (auto simp: subtotal_row_def Let_def split: if_splits sum.splits
            dest: setdefault_append_other)
      with Some assms(3) show ?thesis by (simp add: reaches_detail_def)
    next
      case ni: None
      with None nt assms(4) have d: "detail_row (secs, Some c) r = Inr st'"
        by (simp add: parse_row_def later_categories_def)
      show ?thesis
      proof (cases "is_detail r")
        case True
        with d c(1) have "append_at secs c (score_row r) = Inr (fst st') \<and> snd st' = Some c"
          by (auto simp: detail_row_def Let_def score_row_def split: if_splits sum.splits)
        with assms(3) have "snd st' = Some c \<and> dict_get (fst st') c = Some (Rows (xs @ [score_row r]))"
          by (auto dest: append_at_same)
        with True None nt ni show ?thesis
          by (simp add: reaches_detail_def score_rows_def score_row_def)
      next
        case False
        with d have "st' = (secs, Some c)" by (simp add: detail_row_def)
        with False assms(3) show ?thesis by (simp add: reaches_detail_def)
      qed
    qed
  qed
qed

lemma under_run:
  assumes "\<forall>r \<in> set rs. opens r = None" "py_in ''Score in'' c"
    and "dict_get secs c = Some (Rows xs)"
    and "parse_rows (secs, Some c) rs = Inr st'"
  shows "snd st' = Some c \<and>
         (\<exists>xs'. dict_get (fst st') c = Some (Rows xs') \<and>
                score_rows xs' = score_rows xs @ map score_row (filter reaches_detail rs))"
  using assms
proof (induction rs arbitrary: secs xs)
  case Nil
  then show ?case by auto
next
  case (Cons r rs)
  from Cons.prems(4) obtain st1 where
    s1: "parse_row (secs, Some c) r = Inr st1" and s2: "parse_rows st1 rs = Inr st'"
    by (auto split: sum.splits)
  from Cons.prems(1) have o: "opens r = None" by simp
  from under_step [OF o Cons.prems(2,3) s1] obtain xs1 where
    c1: "snd st1 = Some c" and g1: "dict_get (fst st1) c = Some (Rows xs1)"
    and f1: "score_rows xs1 = score_rows xs @ (if reaches_detail r then [score_row r] else [])"
    by auto
  from c1 have st1: "st1 = (fst st1, Some c)" by (cases st1) simp
  from Cons.prems(1) have rest: "\<forall>r \<in> set rs. opens r = None" by simp
  from s2 st1 have s2': "parse_rows (fst st1, Some c) rs = Inr st'" by simp
  from Cons.IH [OF rest Cons.prems(2) g1 s2'] f1 show ?case by auto
qed

text \<open>
  A row that does not open the section \<open>c\<close>, met while another section is open or opening
  another one itself.
\<close>

lemma other_step:
  assumes "opens r \<noteq> Some c" "cur \<noteq> Some c \<or> opens r \<noteq> None" "py_in ''Score in'' c"
    and "dict_get secs c = Some (Rows xs)"
    and "parse_row (secs, cur) r = Inr st'"
  shows "snd st' \<noteq> Some c \<and>
         (\<exists>xs'. dict_get (fst st') c = Some (Rows xs') \<and> score_rows xs' = score_rows xs)"
proof (cases "opens r")
  case (Some c')
  with assms(1) have "c' \<noteq> c" by simp
  moreover from Some assms(5) have "st' = (dict_set secs c' (Rows []), Some c')"
    by (simp add: opens_step)
  ultimately show ?thesis using assms(4) by (simp add: dict_get_dict_set)
next
  case None
  with assms(2) have cur: "cur \<noteq> Some c" by simp
  note c = caption_facts [OF assms(3)]
  show ?thesis
  proof (cases "section_header r")
    case (Some h)
    with None assms(5) have "st' = (secs, cur)"
      by (auto simp: opens_def parse_row_def Let_def split: if_splits)
    with cur assms(4) show ?thesis by simp
  next
    case nh: None
    show ?thesis
    proof (cases "total_all r")
      case (Some t)
      with nh assms(5) c(2) assms(4) cur show ?thesis
        by (auto simp: parse_row_def later_categories_def dict_get_dict_set split: sum.splits)
    next
      case nt: None
      show ?thesis
      proof (cases "italic_total r")
        case (Some it)
        with nh nt assms(5) have sub: "subtotal_row (secs, cur) r it = Inr st'"
          by (simp add: parse_row_def later_categories_def)
        show ?thesis
        proof (cases "py_in ''Total Score'' (get_text_strip it)")
          case False
          with sub have "st' = (secs, cur)" by (simp add: subtotal_row_def)
          with cur assms(4) show ?thesis by simp
        next
          case True
          with sub obtain v cu where
            cu: "cur = Some cu"
            and ap: "setdefault_append secs (cu @ '' (subtotal)'')
                       (SubtotalEntry (get_text_strip it) v) = Inr (fst st')"
            and sn: "snd st' = cur"
            by (auto simp: subtotal_row_def Let_def split: sum.splits option.splits)
          show ?thesis
          proof (cases "cu @ '' (subtotal)'' = c")
            case True
            with ap assms(4) have
              "dict_get (fst st') c = Some (Rows (xs @ [SubtotalEntry (get_text_strip it) v]))"
              by (auto dest: setdefault_append_same)
            with sn cur show ?thesis by (simp add: score_rows_def)
          next
            case False
            with ap have "dict_get (fst st') c = dict_get secs c"
              by (rule setdefault_append_other)
            with sn cur assms(4) show ?thesis by simp
          qed
        qed
      next
        case ni: None
        with nh nt assms(5) have d: "detail_row (secs, cur) r = Inr st'"
          by (simp add: parse_row_def later_categories_def)
        then have "snd st' = cur \<and> dict_get (fst st') c = dict_get secs c"
          using cur
          by (auto simp: detail_row_def Let_def split: if_splits sum.splits option.splits
              dest: append_at_other)
        with cur assms(4) show ?thesis by simp
      qed
    qed
  qed
qed

lemma other_run:
  assumes "\<forall>r \<in> set rs. opens r \<noteq> Some c" "cur \<noteq> Some c" "py_in ''Score in'' c"
    and "dict_get secs c = Some (Rows xs)"
    and "parse_rows (secs, cur) rs = Inr st'"
  shows "\<exists>xs'. dict_get (fst st') c = Some (Rows xs') \<and> score_rows xs' = score_rows xs"
  using assms
proof (induction rs arbitrary: secs cur xs)
  case Nil
  then show ?case by auto
next
  case (Cons r rs)
  from Cons.prems(5) obtain st1 where
    s1: "parse_row (secs, cur) r = Inr st1" and s2: "parse_rows st1 rs = Inr st'"
    by (auto split: sum.splits)
  from Cons.prems(1) have o: "opens r \<noteq> Some c" by simp
  from Cons.prems(2) have o2: "cur \<noteq> Some c \<or> opens r \<noteq> None" by simp
  from other_step [OF o o2 Cons.prems(3,4) s1] obtain xs1 where
    c1: "snd st1 \<noteq> Some c" and g1: "dict_get (fst st1) c = Some (Rows xs1)"
    and f1: "score_rows xs1 = score_rows xs"
    by auto
  from Cons.prems(1) have rest: "\<forall>r \<in> set rs. opens r \<noteq> Some c" by simp
  from s2 have s2': "parse_rows (fst st1, snd st1) rs = Inr st'" by simp
  from Cons.IH [OF rest c1 Cons.prems(3) g1 s2'] f1 show ?case by auto
qed

lemma one_entry:
  "distinct (dict_keys d) \<Longrightarrow> dict_get d k = Some v \<Longrightarrow>
   length (filter (\<lambda>kv. fst kv = k) d) = 1"
proof (induction d)
  case Nil
  then show ?case by (simp add: dict_get_def)
next
  case (Cons a d)
  show ?case
  proof (cases "fst a = k")
    case True
    with Cons.prems(1) have "k \<notin> fst ` set d" by (auto simp: dict_keys_def)
    then have "filter (\<lambda>kv. fst kv = k) d = []"
      by (auto simp: filter_empty_conv)
    with True show ?thesis by simp
  next
    case False
    with Cons.prems have "distinct (dict_keys d)" "dict_get d k = Some v"
      by (cases a; auto simp: dict_keys_def dict_get_def)+
    with Cons.IH False show ?thesis by simp
  qed
qed


section \<open>No table\<close>

text \<open>
  C9. A document in which no \<open>table\<close> element carries the class \<open>table\<close> gives the result
  \<open>None\<close>, and no exception.
\<close>

theorem no_table_gives_None:
  assumes "\<forall>t \<in> set doc. ''table'' \<notin> set (classes t)"
  shows "parse_metrics_page doc = Inr None"
proof -
  have "find_table doc = None"
    using assms by (simp add: find_table_def find_None_iff)
  then show ?thesis by (simp add: parse_metrics_page_def)
qed

theorem no_table_gives_None_witness:
  "''table'' \<notin> set (classes other_table) \<and> parse_metrics_page [other_table] = Inr None"
proof -
  have c: "''table'' \<notin> set (classes other_table)"
    by (simp add: other_table_def)
  then have h: "\<forall>t \<in> set [other_table]. ''table'' \<notin> set (classes t)"
    by simp
  from c no_table_gives_None [OF h] show ?thesis by (rule conjI)
qed

section \<open>Rows that raise\<close>

lemma detail_row_five_cells:
  "is_detail cols \<Longrightarrow> length cols = 5 \<Longrightarrow> detail_row st cols = Inl IndexError"
  by (simp add: detail_row_def)

lemma subtotal_row_no_section:
  assumes "italic_total r = Some it" "py_in ''Total Score'' (get_text_strip it)"
  shows "subtotal_row (secs, None) r it = Inl TypeError"
proof -
  from assms(1) have "last_th_text r = Inr (get_text_strip (last (filter (\<lambda>c. tag c = TH) r)))"
    unfolding italic_total_def by (rule last_th_text_found)
  with assms(2) show ?thesis by (simp add: subtotal_row_def)
qed

text \<open>
  C1. A row of exactly five cells whose first cell has the left-border style passes the
  test of the detail branch, and reading \<open>cols[5]\<close> then raises \<open>IndexError\<close>: on the page
  made of a section header and such a row, \<open>parse_metrics_page\<close> raises.
\<close>

theorem five_cell_detail_row_raises:
  "is_detail detail_five \<and> length detail_five = 5 \<and>
   parse_metrics_page (page [header_pub, detail_five]) = Inl IndexError"
  by code_simp

text \<open>
  C3. A subtotal row met while \<open>current_section\<close> is still \<open>None\<close> raises \<open>TypeError\<close> in
  \<open>current_section + ' (subtotal)'\<close>; no entry is produced under any key.
\<close>

theorem subtotal_before_section_raises:
  "parse_metrics_page (page [subtotal_pub]) = Inl TypeError"
  by code_simp

section \<open>Section headers\<close>

text \<open>
  C2, as the claim states it: the rows extracted under both occurrences of a caption are
  all in the one entry. A header row assigns the empty list to its caption, so the second
  header discards the row \<open>AI1\<close> that the first one had collected.
\<close>

theorem repeated_caption_counterexample:
  "parse_metrics_page (page [header_pub, detail_ai1]) =
     Inr (Some [(''Score in Publication'',
                 Rows [ScoreRow ''AI1'' ''Article Q1'' ''40'' ''1.234'' ''49.36''])]) \<and>
   parse_metrics_page (page [header_pub, detail_ai1, header_pub, detail_ai2]) =
     Inr (Some [(''Score in Publication'',
                 Rows [ScoreRow ''AI2'' ''Article Q2'' ''30'' ''0.5'' ''15''])])"
  by code_simp

text \<open>
  C2, amended. On every page with a header row that opens the section \<open>c\<close> and no later row
  that opens \<open>c\<close> again, whatever comes before that header (a header with the same caption
  and the rows collected under it included): when \<open>parse_metrics_page\<close> returns a section
  map, the map has exactly one entry under \<open>c\<close>, and the detail rows of that entry are, in
  document order, the dictionaries of the detail rows between that last header and the
  next row that opens a section, or the end of the table.
\<close>

theorem last_header_decides_entry:
  assumes "find_table doc = Some t" "trs t = pre @ h # post"
    and "opens h = Some c" "\<forall>r \<in> set post. opens r \<noteq> Some c"
    and "parse_metrics_page doc = Inr (Some secs)"
  shows "length (filter (\<lambda>kv. fst kv = c) secs) = 1 \<and>
         (\<exists>xs. dict_get secs c = Some (Rows xs) \<and>
               score_rows xs =
                 map score_row
                   (filter reaches_detail (takeWhile (\<lambda>r. opens r = None) post)))"
proof -
  let ?under = "takeWhile (\<lambda>r. opens r = None) post"
  let ?after = "dropWhile (\<lambda>r. opens r = None) post"
  note cap = opens_caption [OF assms(3)]
  from assms(1,2,5) obtain st where
    run: "parse_rows ([], None) (pre @ h # post) = Inr st" and secs: "secs = fst st"
    by (auto simp: parse_metrics_page_def split: sum.splits)
  have "distinct (dict_keys (fst st))"
    using parse_rows_distinct [OF run] by (simp add: dict_keys_def)
  with secs have dist: "distinct (dict_keys secs)" by simp
  from run obtain st1 where
    p1: "parse_rows ([], None) pre = Inr st1" and p2: "parse_rows st1 (h # post) = Inr st"
    by (auto simp: parse_rows_append split: sum.splits)
  let ?secs2 = "dict_set (fst st1) c (Rows [])"
  from p2 opens_step [OF assms(3), of st1] have
    p3: "parse_rows (?secs2, Some c) post = Inr st" by simp
  have "parse_rows (?secs2, Some c) post =
          (case parse_rows (?secs2, Some c) ?under of
             Inl e \<Rightarrow> Inl e
           | Inr st' \<Rightarrow> parse_rows st' ?after)"
    using parse_rows_append [of "(?secs2, Some c)" ?under ?after] by simp
  with p3 obtain st3 where
    p4: "parse_rows (?secs2, Some c) ?under = Inr st3" and p5: "parse_rows st3 ?after = Inr st"
    by (auto split: sum.splits)
  have g2: "dict_get ?secs2 c = Some (Rows [])" by (simp add: dict_get_dict_set)
  have u: "\<forall>r \<in> set ?under. opens r = None"
    by (auto dest: set_takeWhileD)
  from under_run [OF u cap g2 p4] obtain xs3 where
    c3: "snd st3 = Some c" and g3: "dict_get (fst st3) c = Some (Rows xs3)"
    and f3: "score_rows xs3 = map score_row (filter reaches_detail ?under)"
    by (auto simp: score_rows_def)
  have "\<exists>xs. dict_get (fst st) c = Some (Rows xs) \<and> score_rows xs = score_rows xs3"
  proof (cases ?after)
    case Nil
    with p5 g3 show ?thesis by simp
  next
    case (Cons r0 rest)
    then have "set (r0 # rest) \<subseteq> set post"
      using set_dropWhileD [of _ "\<lambda>r. opens r = None" post] by auto
    then have "r0 \<in> set post" "set rest \<subseteq> set post"
      by simp_all
    with assms(4) have o0: "opens r0 \<noteq> Some c" and orest: "\<forall>r \<in> set rest. opens r \<noteq> Some c"
      by auto
    from Cons have n0: "opens r0 \<noteq> None"
      using hd_dropWhile [of "\<lambda>r. opens r = None" post] by simp
    from p5 Cons obtain st4 where
      q1: "parse_row st3 r0 = Inr st4" and q2: "parse_rows st4 rest = Inr st"
      by (auto split: sum.splits)
    from q1 have q1': "parse_row (fst st3, snd st3) r0 = Inr st4" by simp
    from n0 have o2: "snd st3 \<noteq> Some c \<or> opens r0 \<noteq> None" by simp
    from other_step [OF o0 o2 cap g3 q1'] obtain xs4 where
      c4: "snd st4 \<noteq> Some c" and g4: "dict_get (fst st4) c = Some (Rows xs4)"
      and f4: "score_rows xs4 = score_rows xs3"
      by auto
    from q2 have q2': "parse_rows (fst st4, snd st4) rest = Inr st" by simp
    from other_run [OF orest c4 cap g4 q2'] f4 show ?thesis by auto
  qed
  then obtain xs where g: "dict_get secs c = Some (Rows xs)" and f: "score_rows xs = score_rows xs3"
    using secs by auto
  from f f3 have "score_rows xs = map score_row (filter reaches_detail ?under)" by simp
  with g have "\<exists>xs. dict_get secs c = Some (Rows xs) \<and>
               score_rows xs = map score_row (filter reaches_detail ?under)"
    by blast
  with one_entry [OF dist g] show ?thesis by (rule conjI)
qed

theorem last_header_decides_entry_witness:
  "find_table (page (rows_before @ header_pub # rows_after)) =
     Some \<lparr>classes = [''table'', ''table-striped''],
           trs = rows_before @ header_pub # rows_after\<rparr> \<and>
   opens header_pub = Some ''Score in Publication'' \<and>
   opens detail_ai2 \<noteq> Some ''Score in Publication'' \<and>
   opens subtotal_pub \<noteq> Some ''Score in Publication'' \<and>
   opens grand_total \<noteq> Some ''Score in Publication'' \<and>
   parse_metrics_page (page (rows_before @ header_pub # rows_after)) =
     Inr (Some [(''Score in Publication'',
                 Rows [ScoreRow ''AI2'' ''Article Q2'' ''30'' ''0.5'' ''15'']),
                (''Score in Publication (subtotal)'',
                 Rows [SubtotalEntry ''Total Score Publication'' ''64,36'',
                       SubtotalEntry ''Total Score Publication'' ''64,36'']),
                (''TOTAL ALL SCORE'', Scalar ''543,21'')]) \<and>
   (\<exists>xs. dict_get
           [(''Score in Publication'',
             Rows [ScoreRow ''AI2'' ''Article Q2'' ''30'' ''0.5'' ''15'']),
            (''Score in Publication (subtotal)'',
             Rows [SubtotalEntry ''Total Score Publication'' ''64,36'',
                   SubtotalEntry ''Total Score Publication'' ''64,36'']),
            (''TOTAL ALL SCORE'', Scalar ''543,21'')]
           ''Score in Publication'' = Some (Rows xs) \<and>
         score_rows xs =
           map score_row
             (filter reaches_detail (takeWhile (\<lambda>r. opens r = None) rows_after)))"
proof -
  let ?c = "''Score in Publication''"
  let ?t = "\<lparr>classes = [''table'', ''table-striped''],
             trs = rows_before @ header_pub # rows_after\<rparr>"
  let ?res = "[(''Score in Publication'',
                Rows [ScoreRow ''AI2'' ''Article Q2'' ''30'' ''0.5'' ''15'']),
               (''Score in Publication (subtotal)'',
                Rows [SubtotalEntry ''Total Score Publication'' ''64,36'',
                      SubtotalEntry ''Total Score Publication'' ''64,36'']),
               (''TOTAL ALL SCORE'', Scalar ''543,21'')]"
  have a: "find_table (page (rows_before @ header_pub # rows_after)) = Some ?t"
    by (simp add: page_def find_table_def)
  have b: "trs ?t = rows_before @ header_pub # rows_after"
    by simp
  have c: "opens header_pub = Some ?c" by code_simp
  have d1: "opens detail_ai2 \<noteq> Some ?c" by code_simp
  have d2: "opens subtotal_pub \<noteq> Some ?c" by code_simp
  have d3: "opens grand_total \<noteq> Some ?c" by code_simp
  from d1 d2 d3 have d: "\<forall>r \<in> set rows_after. opens r \<noteq> Some ?c"
    by (simp add: rows_after_def)
  have e: "parse_metrics_page (page (rows_before @ header_pub # rows_after)) = Inr (Some ?res)"
    by code_simp
  from last_header_decides_entry [OF a b c d e] have
    "\<exists>xs. dict_get ?res ?c = Some (Rows xs) \<and>
          score_rows xs =
            map score_row
              (filter reaches_detail (takeWhile (\<lambda>r. opens r = None) rows_after))"
    by (rule conjunct2)
  with a c d1 d2 d3 e show ?thesis by (intro conjI)
qed




section \<open>Decimal commas\<close>

text \<open>
  C6. A detail row appends a dictionary whose \<open>value\<close> and \<open>total\<close> are the texts of the cells 4
  and 5 with every comma replaced by a period (\<open>1,234\<close> becomes \<open>1.234\<close>), so no detail row of
  a result has a comma in these fields; a grand total row stores the text of its last \<open>th\<close>
  as it is (\<open>543,21\<close> stays \<open>543,21\<close>).
\<close>

theorem comma_normalization_is_asymmetric:
  "(plain_detail d \<and> cur \<noteq> [] \<and> dict_get secs cur = Some (Rows xs) \<longrightarrow>
      parse_row (secs, Some cur) d =
        Inr (dict_set secs cur
               (Rows (xs @ [ScoreRow (get_text_strip (d ! 1)) (get_text_strip (d ! 2))
                              (get_text_strip (d ! 3))
                              (replace_comma (get_text_strip (d ! 4)))
                              (replace_comma (get_text_strip (d ! 5)))])),
             Some cur)) \<and>
   replace_comma x = map (\<lambda>c. if c = CHR '','' then CHR ''.'' else c) x \<and>
   replace_comma ''1,234'' = ''1.234'' \<and>
   (parse_metrics_page doc = Inr (Some result) \<and> dict_get result k = Some (Rows ys) \<and>
    ScoreRow code name weight v tot \<in> set ys \<longrightarrow>
      CHR '','' \<notin> set v \<and> CHR '','' \<notin> set tot) \<and>
   (section_header r = None \<and> total_all r = Some t \<longrightarrow>
      parse_row st r =
        Inr (dict_set (fst st) ''TOTAL ALL SCORE''
               (Scalar (get_text_strip (last (filter (\<lambda>c. tag c = TH) r)))), snd st)) \<and>
   parse_metrics_page (page [header_pub, detail_ai1, grand_total]) =
     Inr (Some [(''Score in Publication'',
                 Rows [ScoreRow ''AI1'' ''Article Q1'' ''40'' ''1.234'' ''49.36'']),
                (''TOTAL ALL SCORE'', Scalar ''543,21'')])"
proof (intro conjI impI)
  assume "plain_detail d \<and> cur \<noteq> [] \<and> dict_get secs cur = Some (Rows xs)"
  then show "parse_row (secs, Some cur) d =
        Inr (dict_set secs cur
               (Rows (xs @ [ScoreRow (get_text_strip (d ! 1)) (get_text_strip (d ! 2))
                              (get_text_strip (d ! 3))
                              (replace_comma (get_text_strip (d ! 4)))
                              (replace_comma (get_text_strip (d ! 5)))])),
             Some cur)"
    using detail_step [of d cur secs xs] by (simp add: score_row_def)
next
  show "replace_comma x = map (\<lambda>c. if c = CHR '','' then CHR ''.'' else c) x"
    by (simp add: replace_comma_def)
next
  show "replace_comma ''1,234'' = ''1.234''"
    by (simp add: replace_comma_def)
next
  assume a: "parse_metrics_page doc = Inr (Some result) \<and> dict_get result k = Some (Rows ys) \<and>
    ScoreRow code name weight v tot \<in> set ys"
  then have "value_normalized (Rows ys)"
    using parse_metrics_page_normalized rows_normalized_get by blast
  with a have "item_normalized (ScoreRow code name weight v tot)"
    unfolding value_normalized.simps list_all_iff by blast
  then show "CHR '','' \<notin> set v" and "CHR '','' \<notin> set tot"
    by simp_all
next
  assume "section_header r = None \<and> total_all r = Some t"
  then show "parse_row st r =
        Inr (dict_set (fst st) ''TOTAL ALL SCORE''
               (Scalar (get_text_strip (last (filter (\<lambda>c. tag c = TH) r)))), snd st)"
    using grand_total_step by blast
next
  show "parse_metrics_page (page [header_pub, detail_ai1, grand_total]) =
     Inr (Some [(''Score in Publication'',
                 Rows [ScoreRow ''AI1'' ''Article Q1'' ''40'' ''1.234'' ''49.36'']),
                (''TOTAL ALL SCORE'', Scalar ''543,21'')])"
    by code_simp
qed

theorem comma_normalization_is_asymmetric_witness:
  "plain_detail detail_ai1 \<and>
   dict_get (fst open_pub) ''Score in Publication'' = Some (Rows []) \<and>
   parse_row open_pub detail_ai1 =
     Inr ([(''Score in Publication'',
            Rows [ScoreRow ''AI1'' ''Article Q1'' ''40'' ''1.234'' ''49.36''])],
          Some ''Score in Publication'') \<and>
   section_header grand_total = None \<and>
   total_all grand_total = Some (hd grand_total) \<and>
   parse_row open_pub grand_total =
     Inr ([(''Score in Publication'', Rows []), (''TOTAL ALL SCORE'', Scalar ''543,21'')],
          Some ''Score in Publication'')"
proof -
  have a: "plain_detail detail_ai1" by code_simp
  have b: "dict_get (fst open_pub) ''Score in Publication'' = Some (Rows [])" by code_simp
  have ne: "''Score in Publication'' \<noteq> []" by simp
  have c: "section_header grand_total = None" by code_simp
  have d: "total_all grand_total = Some (hd grand_total)" by code_simp
  have pair: "(fst open_pub, Some ''Score in Publication'') = open_pub"
    by (simp add: open_pub_def)
  note inst = comma_normalization_is_asymmetric
    [where d = detail_ai1 and cur = "''Score in Publication''" and secs = "fst open_pub"
       and xs = "[]" and r = grand_total and t = "hd grand_total" and st = open_pub]
  have "parse_row open_pub detail_ai1 =
          parse_row (fst open_pub, Some ''Score in Publication'') detail_ai1"
    by (simp only: pair)
  also from inst a ne b have "\<dots> =
     Inr (dict_set (fst open_pub) ''Score in Publication''
            (Rows ([] @ [ScoreRow (get_text_strip (detail_ai1 ! 1))
                           (get_text_strip (detail_ai1 ! 2)) (get_text_strip (detail_ai1 ! 3))
                           (replace_comma (get_text_strip (detail_ai1 ! 4)))
                           (replace_comma (get_text_strip (detail_ai1 ! 5)))])),
          Some ''Score in Publication'')"
    by blast
  also have "\<dots> =
     Inr ([(''Score in Publication'',
            Rows [ScoreRow ''AI1'' ''Article Q1'' ''40'' ''1.234'' ''49.36''])],
          Some ''Score in Publication'')"
    by code_simp
  finally have e: "parse_row open_pub detail_ai1 =
     Inr ([(''Score in Publication'',
            Rows [ScoreRow ''AI1'' ''Article Q1'' ''40'' ''1.234'' ''49.36''])],
          Some ''Score in Publication'')" .
  from inst c d have "parse_row open_pub grand_total =
     Inr (dict_set (fst open_pub) ''TOTAL ALL SCORE''
            (Scalar (get_text_strip (last (filter (\<lambda>c. tag c = TH) grand_total)))),
          snd open_pub)"
    by blast
  also have "\<dots> =
     Inr ([(''Score in Publication'', Rows []), (''TOTAL ALL SCORE'', Scalar ''543,21'')],
          Some ''Score in Publication'')"
    by code_simp
  finally have f: "parse_row open_pub grand_total =
     Inr ([(''Score in Publication'', Rows []), (''TOTAL ALL SCORE'', Scalar ''543,21'')],
          Some ''Score in Publication'')" .
  from a b e c d f show ?thesis by (intro conjI)
qed

section \<open>The metric store\<close>

lemma dict_get_None_iff: "dict_get d k = None \<longleftrightarrow> k \<notin> set (dict_keys d)"
  by (simp add: dict_get_def dict_keys_def map_of_eq_None_iff)

lemma init_fresh: "init fresh_session = \<lparr>SINTA_DB = Some canonical_defaults, default_values = Some canonical_defaults\<rparr>"
  by (simp add: init_def ensure_session_state_def fresh_session_def canonical_defaults_def)

lemma init_default_values:
  "default_values s = None \<Longrightarrow> default_values (init s) = Some canonical_defaults"
  by (auto simp: init_def ensure_session_state_def Let_def split: option.splits list.splits)

subsection \<open>get\_value on a missing key\<close>

text \<open>
  C10. For a key that is not in the store and a float default, \<open>get_value\<close> returns the
  default and does not raise: \<open>dict.get\<close> hands the default to \<open>float\<close>, which returns it.
\<close>

theorem get_value_missing_key:
  assumes "SINTA_DB s = Some db" "key \<notin> set (dict_keys db)"
  shows "get_value s key (PFloat d) = Inr d"
proof -
  have "dict_get db key = None"
    using assms(2) by (simp add: dict_get_None_iff)
  with assms(1) show ?thesis by (simp add: get_value_def)
qed

theorem get_value_missing_key_witness:
  "SINTA_DB (init fresh_session) = Some canonical_defaults \<and>
   ''XYZ'' \<notin> set (dict_keys canonical_defaults) \<and>
   get_value (init fresh_session) ''XYZ'' (PFloat (Fin 2.5)) = Inr (Fin 2.5)"
proof -
  have a: "SINTA_DB (init fresh_session) = Some canonical_defaults"
    by (simp add: init_fresh)
  have b: "''XYZ'' \<notin> set (dict_keys canonical_defaults)"
    by (simp add: canonical_defaults_def dict_keys_def)
  from a b get_value_missing_key [OF a b] show ?thesis by blast
qed

subsection \<open>Values that are not numbers\<close>

lemma not_a_number: "float_of_str ''not-a-number'' = Inl ValueError"
  by (simp add: float_of_str_def strip_with_def is_float_space_def lower_char_def
      parse_number_def digit_or_us_def is_digit_def)

lemma py_float_uncaught:
  assumes "py_float v = Inl e" "\<not> caught e" "\<forall>r. v \<noteq> PObject r"
  shows "e = OverflowError \<and> (\<exists>n. v = PInt n \<and> int_too_large n)"
  using assms
  by (cases v)
     (auto simp: caught_def float_of_str_def Let_def split: if_splits option.splits)

lemma set_value_raw:
  assumes "SINTA_DB s = Some db" "py_float v = Inl e" "caught e"
  shows "set_value s key v = Inr (s\<lparr>SINTA_DB := Some (dict_set db key v)\<rparr>, [NotNumeric v key])"
  using assms by (simp add: set_value_def)

lemma get_value_raw:
  assumes "py_float v = Inl e" "caught e"
  shows "get_value (s\<lparr>SINTA_DB := Some (dict_set db key v)\<rparr>) key (PFloat d) = Inr d"
  using assms by (simp add: get_value_def dict_get_dict_set)

text \<open>
  C7, as the claim states it: \<open>get_value\<close> never raises, and a value that \<open>float\<close> rejects is
  stored as it is. On a store that holds an integer beyond the float range, as a JSON file
  can, \<open>float\<close> raises \<open>OverflowError\<close>, which the handler for \<open>ValueError\<close> and \<open>TypeError\<close>
  lets through; \<open>set_value\<close> raises on such an integer and stores nothing.
\<close>

theorem get_value_counterexample:
  "SINTA_DB huge_session = Some [(''AI1'', PInt (10 ^ 400))] \<and>
   get_value huge_session ''AI1'' (PFloat (Fin 0)) = Inl OverflowError \<and>
   set_value huge_session ''AI2'' (PInt (10 ^ 400)) = Inl OverflowError"
  by (simp add: huge_session_def get_value_def set_value_def dict_get_def int_too_large_def
      float_limit_def caught_def)

text \<open>
  C7, amended. Setting a value on which \<open>float\<close> raises \<open>ValueError\<close> or \<open>TypeError\<close> stores the
  value itself and gives one warning, and reading the key with a float default then
  returns the default: \<open>set_value("AI1", "not-a-number")\<close> stores the string, and
  \<open>get_value("AI1", 0.0)\<close> returns \<open>0.0\<close>. For every key and float default, \<open>get_value\<close>
  returns the default when the key is missing or when \<open>float\<close> of the stored value raises
  \<open>ValueError\<close> or \<open>TypeError\<close>, and the float of the stored value when there is one. Any other
  exception of \<open>float\<close> leaves \<open>get_value\<close> and \<open>set_value\<close> as it is; among floats, integers,
  booleans, strings, \<open>None\<close>, lists and dictionaries the only one is the \<open>OverflowError\<close> of an
  integer too large for a float.
\<close>

theorem get_value_fallback:
  assumes "SINTA_DB s = Some db"
  shows "(\<forall>key v e d. py_float v = Inl e \<and> caught e \<longrightarrow>
            set_value s key v =
              Inr (s\<lparr>SINTA_DB := Some (dict_set db key v)\<rparr>, [NotNumeric v key]) \<and>
            dict_get (dict_set db key v) key = Some v \<and>
            get_value (s\<lparr>SINTA_DB := Some (dict_set db key v)\<rparr>) key (PFloat d) = Inr d) \<and>
         py_float (PStr ''not-a-number'') = Inl ValueError \<and> caught ValueError \<and>
         (\<forall>key v e. py_float v = Inl e \<and> \<not> caught e \<longrightarrow> set_value s key v = Inl e) \<and>
         (\<forall>key d. get_value s key (PFloat d) =
            (case dict_get db key of
               None \<Rightarrow> Inr d
             | Some v \<Rightarrow>
                (case py_float v of
                   Inr f \<Rightarrow> Inr f
                 | Inl e \<Rightarrow> if caught e then Inr d else Inl e))) \<and>
         (\<forall>v e. py_float v = Inl e \<and> \<not> caught e \<and> (\<forall>r. v \<noteq> PObject r) \<longrightarrow>
                 e = OverflowError \<and> (\<exists>n. v = PInt n \<and> int_too_large n)) \<and>
         (\<forall>n. int_too_large n \<longrightarrow> py_float (PInt n) = Inl OverflowError \<and> \<not> caught OverflowError)"
proof (intro conjI allI impI)
  fix key v e d
  assume a: "py_float v = Inl e \<and> caught e"
  then show "set_value s key v =
              Inr (s\<lparr>SINTA_DB := Some (dict_set db key v)\<rparr>, [NotNumeric v key])"
    using assms set_value_raw by blast
  show "dict_get (dict_set db key v) key = Some v"
    by (simp add: dict_get_dict_set)
  from a show "get_value (s\<lparr>SINTA_DB := Some (dict_set db key v)\<rparr>) key (PFloat d) = Inr d"
    using get_value_raw by blast
next
  show "py_float (PStr ''not-a-number'') = Inl ValueError"
    by (simp add: not_a_number)
next
  show "caught ValueError" by (simp add: caught_def)
next
  fix key v e
  assume "py_float v = Inl e \<and> \<not> caught e"
  then show "set_value s key v = Inl e"
    by (simp add: set_value_def)
next
  fix key d
  show "get_value s key (PFloat d) =
            (case dict_get db key of
               None \<Rightarrow> Inr d
             | Some v \<Rightarrow>
                (case py_float v of
                   Inr f \<Rightarrow> Inr f
                 | Inl e \<Rightarrow> if caught e then Inr d else Inl e))"
    using assms by (auto simp: get_value_def split: option.splits sum.splits)
next
  fix v e
  assume "py_float v = Inl e \<and> \<not> caught e \<and> (\<forall>r. v \<noteq> PObject r)"
  then show "e = OverflowError" and "\<exists>n. v = PInt n \<and> int_too_large n"
    using py_float_uncaught by blast+
next
  fix n
  assume "int_too_large n"
  then show "py_float (PInt n) = Inl OverflowError" by simp
  show "\<not> caught OverflowError" by (simp add: caught_def)
qed

theorem get_value_fallback_witness:
  "SINTA_DB (init fresh_session) = Some canonical_defaults \<and>
   py_float (PStr ''not-a-number'') = Inl ValueError \<and>
   caught ValueError \<and>
   set_value (init fresh_session) ''AI1'' (PStr ''not-a-number'') =
     Inr ((init fresh_session)
            \<lparr>SINTA_DB := Some (dict_set canonical_defaults ''AI1'' (PStr ''not-a-number''))\<rparr>,
          [NotNumeric (PStr ''not-a-number'') ''AI1'']) \<and>
   get_value ((init fresh_session)
                \<lparr>SINTA_DB := Some (dict_set canonical_defaults ''AI1'' (PStr ''not-a-number''))\<rparr>)
     ''AI1'' (PFloat (Fin 0)) = Inr (Fin 0) \<and>
   py_float PNone = Inl TypeError \<and>
   caught TypeError \<and>
   get_value ((init fresh_session)
                \<lparr>SINTA_DB := Some (dict_set canonical_defaults ''P3'' PNone)\<rparr>)
     ''P3'' (PFloat (Fin 18)) = Inr (Fin 18)"
proof -
  have h: "SINTA_DB (init fresh_session) = Some canonical_defaults"
    by (simp add: init_fresh)
  have a: "py_float (PStr ''not-a-number'') = Inl ValueError"
    by (simp add: not_a_number)
  have b: "caught ValueError" by (simp add: caught_def)
  have c: "py_float PNone = Inl TypeError" by simp
  have d: "caught TypeError" by (simp add: caught_def)
  note inst = get_value_fallback [OF h]
  from inst a b have
    "set_value (init fresh_session) ''AI1'' (PStr ''not-a-number'') =
     Inr ((init fresh_session)
            \<lparr>SINTA_DB := Some (dict_set canonical_defaults ''AI1'' (PStr ''not-a-number''))\<rparr>,
          [NotNumeric (PStr ''not-a-number'') ''AI1''])"
    and "get_value ((init fresh_session)
                \<lparr>SINTA_DB := Some (dict_set canonical_defaults ''AI1'' (PStr ''not-a-number''))\<rparr>)
     ''AI1'' (PFloat (Fin 0)) = Inr (Fin 0)"
    by blast+
  moreover from inst c d have
    "get_value ((init fresh_session)
                \<lparr>SINTA_DB := Some (dict_set canonical_defaults ''P3'' PNone)\<rparr>)
     ''P3'' (PFloat (Fin 18)) = Inr (Fin 18)"
    by blast
  ultimately show ?thesis using h a b c d by (intro conjI)
qed

subsection \<open>Reset and validation\<close>

lemma check_required_present:
  "\<forall>f \<in> set fs. dict_get db f \<noteq> None \<Longrightarrow> check_required db errors fs = errors"
  by (induction fs arbitrary: errors) auto

lemma check_values_valid:
  "\<forall>kv \<in> set items. \<exists>f. py_float (snd kv) = Inr f \<and> \<not> float_lt0 f \<Longrightarrow>
   check_values errors items = Inr errors"
  by (induction items arbitrary: errors) auto

lemma canonical_defaults_valid:
  "\<forall>kv \<in> set canonical_defaults. \<exists>f. py_float (snd kv) = Inr f \<and> \<not> float_lt0 f"
  by (simp add: canonical_defaults_def)

lemma keys_present: "\<forall>k \<in> set (dict_keys d). dict_get d k \<noteq> None"
  by (simp add: dict_get_None_iff)

text \<open>
  C8. Once the defaults table is in the session state, \<open>reset_data\<close> followed by
  \<open>validate_data\<close> gives the empty dictionary of issues: the store is then the defaults
  table, every field of the table is in it, and every stored value is a float that is
  not negative.
\<close>

theorem reset_then_validate:
  assumes "default_values s = Some canonical_defaults"
  shows "\<exists>s'. reset_data s = Inr s' \<and>
           SINTA_DB s' = Some canonical_defaults \<and>
           validate_data s' = Inr [] \<and>
           (\<forall>k \<in> set (dict_keys canonical_defaults). dict_get canonical_defaults k \<noteq> None) \<and>
           (\<forall>kv \<in> set canonical_defaults. \<exists>f. py_float (snd kv) = Inr f \<and> \<not> float_lt0 f)"
proof -
  let ?s' = "s\<lparr>SINTA_DB := Some canonical_defaults\<rparr>"
  have r: "reset_data s = Inr ?s'"
    using assms by (simp add: reset_data_def)
  have "check_required canonical_defaults [] (dict_keys canonical_defaults) = []"
    by (rule check_required_present) (rule keys_present)
  moreover have "check_values [] canonical_defaults = Inr []"
    by (rule check_values_valid) (rule canonical_defaults_valid)
  ultimately have v: "validate_data ?s' = Inr []"
    using assms by (simp add: validate_data_def)
  show ?thesis
  proof (intro exI conjI)
    show "reset_data s = Inr ?s'" by (rule r)
    show "SINTA_DB ?s' = Some canonical_defaults" by simp
    show "validate_data ?s' = Inr []" by (rule v)
    show "\<forall>k \<in> set (dict_keys canonical_defaults). dict_get canonical_defaults k \<noteq> None"
      by (rule keys_present)
    show "\<forall>kv \<in> set canonical_defaults. \<exists>f. py_float (snd kv) = Inr f \<and> \<not> float_lt0 f"
      by (rule canonical_defaults_valid)
  qed
qed

theorem reset_then_validate_witness:
  "default_values (init fresh_session) = Some canonical_defaults \<and>
   (\<exists>s'. reset_data (init fresh_session) = Inr s' \<and> validate_data s' = Inr [])"
proof -
  have h: "default_values (init fresh_session) = Some canonical_defaults"
    by (rule init_default_values) (simp add: fresh_session_def)
  from reset_then_validate [OF h] have
    "\<exists>s'. reset_data (init fresh_session) = Inr s' \<and> validate_data s' = Inr []"
    by blast
  with h show ?thesis by (rule conjI)
qed

subsection \<open>Restoring and loading\<close>

lemma dict_get_dict_update:
  "distinct (dict_keys other) \<Longrightarrow>
   dict_get (dict_update d other) k =
     (case dict_get other k of Some v \<Rightarrow> Some v | None \<Rightarrow> dict_get d k)"
proof (induction other arbitrary: d)
  case Nil
  then show ?case by (simp add: dict_update_def dict_get_def)
next
  case (Cons kv other)
  have n: "dict_get other (fst kv) = None"
    using Cons.prems by (simp add: dict_get_None_iff dict_keys_def)
  have "dict_get (dict_update (dict_set d (fst kv) (snd kv)) other) k =
          (case dict_get other k of Some v \<Rightarrow> Some v
           | None \<Rightarrow> dict_get (dict_set d (fst kv) (snd kv)) k)"
    using Cons.prems by (intro Cons.IH) (simp add: dict_keys_def)
  moreover have "dict_update d (kv # other) = dict_update (dict_set d (fst kv) (snd kv)) other"
    by (simp add: dict_update_def)
  moreover have "dict_get (kv # other) k = (if k = fst kv then Some (snd kv) else dict_get other k)"
    by (cases kv) (simp add: dict_get_def)
  ultimately show ?case
    using n by (simp add: dict_get_dict_set split: option.splits)
qed

text \<open>
  C5, as the claim states it: after loading a snapshot, a key of the store that the
  snapshot lacks keeps its value. \<open>restore_from_backup\<close> assigns the snapshot to the
  store, so the key \<open>AI1\<close> is gone after restoring a snapshot that has only \<open>AI2\<close>.
\<close>

theorem restore_from_backup_counterexample:
  "SINTA_DB one_key_session = Some [(''AI1'', PFloat (Fin 1))] \<and>
   dict_get other_key_data ''AI1'' = None \<and>
   SINTA_DB (restore_from_backup one_key_session other_key_data) = Some [(''AI2'', PFloat (Fin 2))]"
  by (simp add: one_key_session_def other_key_data_def restore_from_backup_def dict_get_def)

text \<open>
  C5, amended. \<open>restore_from_backup\<close> replaces the whole store by the snapshot. The
  merge is what \<open>load_from_file\<close> does with the JSON object of a file: it returns \<open>True\<close>,
  a key of the file gets the file's value (overwritten or added), and every other key
  keeps the value it had.
\<close>

theorem restore_replaces_load_merges:
  assumes "SINTA_DB s = Some db" "fs filename = JsonObject data" "distinct (dict_keys data)"
  shows "restore_from_backup s data = s\<lparr>SINTA_DB := Some data\<rparr> \<and>
         (\<exists>db'. load_from_file fs s filename = (s\<lparr>SINTA_DB := Some db'\<rparr>, True) \<and>
            (\<forall>k. dict_get db' k =
               (case dict_get data k of Some v \<Rightarrow> Some v | None \<Rightarrow> dict_get db k)))"
proof (intro conjI exI)
  show "restore_from_backup s data = s\<lparr>SINTA_DB := Some data\<rparr>"
    by (simp add: restore_from_backup_def)
  show "load_from_file fs s filename = (s\<lparr>SINTA_DB := Some (dict_update db data)\<rparr>, True)"
    using assms(1,2) by (simp add: load_from_file_def)
  show "\<forall>k. dict_get (dict_update db data) k =
          (case dict_get data k of Some v \<Rightarrow> Some v | None \<Rightarrow> dict_get db k)"
    using assms(3) by (simp add: dict_get_dict_update)
qed

theorem restore_replaces_load_merges_witness:
  "SINTA_DB one_key_session = Some [(''AI1'', PFloat (Fin 1))] \<and>
   one_file ''sinta_data.json'' = JsonObject other_key_data \<and>
   distinct (dict_keys other_key_data) \<and>
   restore_from_backup one_key_session other_key_data =
     one_key_session\<lparr>SINTA_DB := Some other_key_data\<rparr> \<and>
   load_from_file one_file one_key_session ''sinta_data.json'' =
     (one_key_session\<lparr>SINTA_DB := Some [(''AI1'', PFloat (Fin 1)), (''AI2'', PFloat (Fin 2))]\<rparr>, True)"
proof -
  have a: "SINTA_DB one_key_session = Some [(''AI1'', PFloat (Fin 1))]"
    by (simp add: one_key_session_def)
  have b: "one_file ''sinta_data.json'' = JsonObject other_key_data"
    by (simp add: one_file_def)
  have c: "distinct (dict_keys other_key_data)"
    by (simp add: other_key_data_def dict_keys_def)
  have d: "load_from_file one_file one_key_session ''sinta_data.json'' =
     (one_key_session\<lparr>SINTA_DB := Some [(''AI1'', PFloat (Fin 1)), (''AI2'', PFloat (Fin 2))]\<rparr>, True)"
    by (simp add: load_from_file_def one_file_def one_key_session_def other_key_data_def dict_update_def)
  from restore_replaces_load_merges
         [where s = one_key_session and fs = one_file and data = other_key_data, OF a b c] have
    "restore_from_backup one_key_session other_key_data =
       one_key_session\<lparr>SINTA_DB := Some other_key_data\<rparr>"
    by blast
  with a b c d show ?thesis by blast
qed

end
